theory Spec2Isabelle
  imports Main "HOL-Library.Word"
begin

section \<open>Strings of the host language\<close>

text \<open>
  A string of the source language is a sequence of 16-bit code units; \<open>length\<close>,
  indexing and a regular expression without the \<open>u\<close> flag all work on code units.
  A source literal of ASCII characters is written \<open>lit ''...''\<close>.
\<close>

type_synonym code_unit = "16 word"
type_synonym jsstring = "code_unit list"

definition lit :: "string \<Rightarrow> jsstring" where
  "lit s = map of_char s"

subsection \<open>Character classes of the regular expressions\<close>

datatype class_item = Single code_unit | Range code_unit code_unit

fun item_matches :: "class_item \<Rightarrow> code_unit \<Rightarrow> bool" where
  "item_matches (Single a) c = (c = a)"
| "item_matches (Range lo hi) c = (lo \<le> c \<and> c \<le> hi)"

definition class_matches :: "class_item list \<Rightarrow> code_unit \<Rightarrow> bool" where
  "class_matches items c = list_ex (\<lambda>i. item_matches i c) items"

text \<open>\<^verbatim>\<open>/[...]/.test(s)\<close>: an unanchored class matches when some code unit is in it.\<close>

definition test_class :: "class_item list \<Rightarrow> jsstring \<Rightarrow> bool" where
  "test_class items s = list_ex (class_matches items) s"

text \<open>\<^verbatim>\<open>/[A-Z]/\<close>, \<^verbatim>\<open>/[a-z]/\<close>, \<^verbatim>\<open>/\d/\<close> and \<^verbatim>\<open>/[!@#$%^&*(),.?":{}|<>]/\<close>.\<close>

definition re_upper :: "class_item list" where
  "re_upper = [Range 0x41 0x5A]"

definition re_lower :: "class_item list" where
  "re_lower = [Range 0x61 0x7A]"

definition re_digit :: "class_item list" where
  "re_digit = [Range 0x30 0x39]"

definition re_special :: "class_item list" where
  "re_special =
     [Single 0x21, Single 0x40, Single 0x23, Single 0x24, Single 0x25,
      Single 0x5E, Single 0x26, Single 0x2A, Single 0x28, Single 0x29,
      Single 0x2C, Single 0x2E, Single 0x3F, Single 0x22, Single 0x3A,
      Single 0x7B, Single 0x7D, Single 0x7C, Single 0x3C, Single 0x3E]"

text \<open>
  \<^verbatim>\<open>/^[\x00-\x7F]*$/.test(str)\<close>: the greedy star consumes the longest prefix of
  code units in the class, and \<open>$\<close> (no \<open>m\<close> flag) then asks for the end of input.
\<close>

definition isAsciiOnly :: "jsstring \<Rightarrow> bool" where
  "isAsciiOnly str = (dropWhile (class_matches [Range 0x00 0x7F]) str = [])"

subsection \<open>The repetition pattern\<close>

text \<open>
  \<^verbatim>\<open>/(.)\1{2,}/\<close>. Without the \<open>s\<close> flag the dot matches every code unit except
  the four line terminators.
\<close>

definition isLineTerminator :: "code_unit \<Rightarrow> bool" where
  "isLineTerminator c = (c = 0x000A \<or> c = 0x000D \<or> c = 0x2028 \<or> c = 0x2029)"

definition dot_matches :: "code_unit \<Rightarrow> bool" where
  "dot_matches c = (\<not> isLineTerminator c)"

text \<open>The pattern anchored at the head: the group, then at least two copies of it.\<close>

fun repeated_at :: "jsstring \<Rightarrow> bool" where
  "repeated_at [] = False"
| "repeated_at (c # rest) = (dot_matches c \<and> 2 \<le> length (takeWhile (\<lambda>d. d = c) rest))"

text \<open>\<open>test\<close> tries every start index from left to right.\<close>

fun test_repeated :: "jsstring \<Rightarrow> bool" where
  "test_repeated [] = False"
| "test_repeated (c # rest) = (repeated_at (c # rest) \<or> test_repeated rest)"

subsection \<open>The runtime\<close>

text \<open>
  Two library functions of the host language are exact in this model on part of their
  domain only; beyond it they depend on tables and algorithms of the runtime that are not
  part of the repository. Those parts are the two fields of the runtime, and every
  theorem holds for every runtime:
  \<^item> \<open>caseTables\<close>: the lower-casing of a string with a code unit above \<open>0x7F\<close>;
  \<^item> \<open>largeNumberToString\<close>: the rendering of an integral number beyond the safe
    integers (magnitude above \<open>2^53 - 1\<close>), where the host language prints the shortest
    digits that identify the floating-point value, and an exponent from \<open>10^21\<close> on.
\<close>

record Runtime =
  caseTables :: "jsstring \<Rightarrow> jsstring"
  largeNumberToString :: "int \<Rightarrow> jsstring"

text \<open>
  A runtime for the examples. Every example is an ASCII string under a configuration whose
  \<open>minLength\<close> is a safe integer, so neither field is consulted.
\<close>

definition exampleRuntime :: Runtime where
  "exampleRuntime = \<lparr> caseTables = (\<lambda>s. s), largeNumberToString = (\<lambda>n. []) \<rparr>"

subsection \<open>Lower-casing and substring search\<close>

definition ascii_lower :: "code_unit \<Rightarrow> code_unit" where
  "ascii_lower c = (if 0x41 \<le> c \<and> c \<le> 0x5A then c + 0x20 else c)"

text \<open>
  \<open>toLowerCase\<close> of the host language. On a string of code units up to \<open>0x7F\<close> the
  Unicode case conversion maps \<open>A\<close>..\<open>Z\<close> to \<open>a\<close>..\<open>z\<close> and leaves the rest alone. For
  any other string it consults the Unicode case tables of the runtime.
\<close>

definition toLowerCase :: "Runtime \<Rightarrow> jsstring \<Rightarrow> jsstring" where
  "toLowerCase rt s =
     (if list_all (\<lambda>c. c \<le> 0x7F) s then map ascii_lower s else caseTables rt s)"

fun startsWith :: "jsstring \<Rightarrow> jsstring \<Rightarrow> bool" where
  "startsWith s [] = True"
| "startsWith [] (p # ps) = False"
| "startsWith (c # s) (p # ps) = (c = p \<and> startsWith s ps)"

fun includes_str :: "jsstring \<Rightarrow> jsstring \<Rightarrow> bool" where
  "includes_str [] p = startsWith [] p"
| "includes_str (c # s) p = (startsWith (c # s) p \<or> includes_str s p)"

definition commonPatterns :: "jsstring list" where
  "commonPatterns =
     [lit ''123456'', lit ''password'', lit ''qwerty'', lit ''abc123'',
      lit ''abcdefghijklmnopqrstuvwxyz'', lit ''123456789'']"

subsection \<open>Numbers in template literals\<close>

text \<open>
  A template literal renders a number with \<open>Number::toString\<close>. For a safe integer
  (magnitude at most \<open>2^53 - 1 = 9007199254740991\<close>) that is its decimal expansion,
  with a minus sign when negative; beyond the safe integers the rendering is the
  runtime's.
\<close>

fun digits :: "nat \<Rightarrow> jsstring" where
  "digits n =
     (if n < 10 then [0x30 + of_nat n]
      else digits (n div 10) @ [0x30 + of_nat (n mod 10)])"

declare digits.simps [simp del]

definition isSafeInteger :: "int \<Rightarrow> bool" where
  "isSafeInteger n = (\<bar>n\<bar> \<le> 9007199254740991)"

definition decimal :: "int \<Rightarrow> jsstring" where
  "decimal n = (if n < 0 then 0x2D # digits (nat (- n)) else digits (nat n))"

definition Number_toString :: "Runtime \<Rightarrow> int \<Rightarrow> jsstring" where
  "Number_toString rt n = (if isSafeInteger n then decimal n else largeNumberToString rt n)"

section \<open>The data model\<close>

record StrengthCriteria =
  length_c :: bool
  uppercase :: bool
  lowercase :: bool
  numbers :: bool
  specialChars :: bool
  noRepeatedChars :: bool
  noCommonPatterns :: bool

datatype Level = Weak | Medium | Strong

record Strength =
  level :: Level
  score :: int
  maxScore :: int
  criteria :: StrengthCriteria
  feedback :: "jsstring list"

text \<open>
  The properties of the component, with \<open>minLength\<close> an integral number (a fraction,
  \<open>NaN\<close> and the infinities are outside the model). The callback
  \<open>onStrengthChange\<close> is modelled by the log of its calls in the component state.
\<close>

record Props =
  minLength :: int
  requireUppercase :: bool
  requireLowercase :: bool
  requireNumbers :: bool
  requireSpecialChars :: bool
  preventRepeatedChars :: bool
  preventCommonPatterns :: bool

definition defaultProps :: Props where
  "defaultProps =
     \<lparr> minLength = 8, requireUppercase = True, requireLowercase = True,
       requireNumbers = True, requireSpecialChars = True,
       preventRepeatedChars = True, preventCommonPatterns = True \<rparr>"

section \<open>evaluatePassword\<close>

text \<open>\<open>Object.values\<close> lists the values in the order the properties were created.\<close>

definition Object_values :: "StrengthCriteria \<Rightarrow> bool list" where
  "Object_values c =
     [length_c c, uppercase c, lowercase c, numbers c, specialChars c,
      noRepeatedChars c, noCommonPatterns c]"

text \<open>\<^verbatim>\<open>let score = 0; values.forEach((value) => value && score++)\<close>\<close>

definition count_passed :: "bool list \<Rightarrow> int" where
  "count_passed vs = fold (\<lambda>v s. if v then s + 1 else s) vs 0"

definition compute_criteria :: "Runtime \<Rightarrow> Props \<Rightarrow> jsstring \<Rightarrow> StrengthCriteria" where
  "compute_criteria rt props pwd =
     \<lparr> length_c = (int (length pwd) \<ge> minLength props),
       uppercase = test_class re_upper pwd,
       lowercase = test_class re_lower pwd,
       numbers = test_class re_digit pwd,
       specialChars = test_class re_special pwd,
       noRepeatedChars = (\<not> test_repeated pwd),
       noCommonPatterns =
         (\<not> list_ex (\<lambda>pattern. includes_str (toLowerCase rt pwd) pattern)
               commonPatterns) \<rparr>"

definition push :: "'a list \<Rightarrow> 'a \<Rightarrow> 'a list" where
  "push xs x = xs @ [x]"

definition build_feedback :: "Runtime \<Rightarrow> Props \<Rightarrow> StrengthCriteria \<Rightarrow> jsstring list" where
  "build_feedback rt props c =
     (let fb = [];
          fb = (if \<not> length_c c
                then push fb (lit ''Minimum '' @ Number_toString rt (minLength props)
                                @ lit '' characters'')
                else fb);
          fb = (if requireUppercase props \<and> \<not> uppercase c
                then push fb (lit ''Add uppercase letters'') else fb);
          fb = (if requireLowercase props \<and> \<not> lowercase c
                then push fb (lit ''Add lowercase letters'') else fb);
          fb = (if requireNumbers props \<and> \<not> numbers c
                then push fb (lit ''Add numbers'') else fb);
          fb = (if requireSpecialChars props \<and> \<not> specialChars c
                then push fb (lit ''Add special characters'') else fb);
          fb = (if preventRepeatedChars props \<and> \<not> noRepeatedChars c
                then push fb (lit ''Avoid repeated characters'') else fb);
          fb = (if preventCommonPatterns props \<and> \<not> noCommonPatterns c
                then push fb (lit ''Avoid common patterns'') else fb)
      in fb)"

definition level_of :: "int \<Rightarrow> Level" where
  "level_of s = (if s \<ge> 6 then Strong else if s \<ge> 4 then Medium else Weak)"

definition evaluatePassword :: "Runtime \<Rightarrow> Props \<Rightarrow> jsstring \<Rightarrow> Strength" where
  "evaluatePassword rt props pwd =
     (let c = compute_criteria rt props pwd;
          s = count_passed (Object_values c);
          fb = build_feedback rt props c;
          lv = level_of s
      in \<lparr> level = lv, score = s, maxScore = 7, criteria = c, feedback = fb \<rparr>)"

section \<open>The hosting component\<close>

record State =
  password :: jsstring
  strength :: Strength
  notified :: "Strength list"

definition initialState :: State where
  "initialState =
     \<lparr> password = [],
       strength =
         \<lparr> level = Weak, score = 0, maxScore = 7,
           criteria =
             \<lparr> length_c = False, uppercase = False, lowercase = False, numbers = False,
               specialChars = False, noRepeatedChars = False, noCommonPatterns = False \<rparr>,
           feedback = [] \<rparr>,
       notified = [] \<rparr>"

text \<open>The effect that runs after a render in which \<open>password\<close> changed, and on mount.\<close>

definition useEffect :: "Runtime \<Rightarrow> Props \<Rightarrow> State \<Rightarrow> State" where
  "useEffect rt props st =
     (let result = evaluatePassword rt props (password st)
      in st\<lparr> strength := result, notified := notified st @ [result] \<rparr>)"

text \<open>The sanitizer's gate, \<^verbatim>\<open>!(text.length > 25 || !isAsciiOnly(text))\<close>.\<close>

definition accept :: "jsstring \<Rightarrow> bool" where
  "accept text = (\<not> (length text > 25 \<or> \<not> isAsciiOnly text))"

definition handlePasswordChange :: "jsstring \<Rightarrow> State \<Rightarrow> State" where
  "handlePasswordChange text st =
     (if length text > 25 \<or> \<not> isAsciiOnly text then st else st\<lparr> password := text \<rparr>)"

text \<open>
  One change event of the text field: the handler, then the effect when the stored
  password is a different string.
\<close>

definition changeText :: "Runtime \<Rightarrow> Props \<Rightarrow> jsstring \<Rightarrow> State \<Rightarrow> State" where
  "changeText rt props text st =
     (let st' = handlePasswordChange text st
      in if password st' \<noteq> password st then useEffect rt props st' else st')"

definition mounted :: "Runtime \<Rightarrow> Props \<Rightarrow> State" where
  "mounted rt props = useEffect rt props initialState"

definition run :: "Runtime \<Rightarrow> Props \<Rightarrow> jsstring list \<Rightarrow> State" where
  "run rt props texts =
     foldl (\<lambda>st text. changeText rt props text st) (mounted rt props) texts"

section \<open>Notions of the specification\<close>

text \<open>
  A run of the same code unit repeated three or more times in a row contains three equal
  neighbours, and conversely.
\<close>

fun has_run3 :: "jsstring \<Rightarrow> bool" where
  "has_run3 (a # b # c # rest) = ((a = b \<and> b = c) \<or> has_run3 (b # c # rest))"
| "has_run3 _ = False"

text \<open>A stored password is valid: at most 25 code units, each a code point from 0 to 127.\<close>

definition valid_password :: "jsstring \<Rightarrow> bool" where
  "valid_password s = (length s \<le> 25 \<and> list_all (\<lambda>c. unat c \<le> 127) s)"

text \<open>
  The invariant of the component after mount: the stored password is valid, the displayed
  strength is its evaluation, and every result handed to the callback is the evaluation of
  a valid string.
\<close>

definition evaluated_valid :: "Runtime \<Rightarrow> Props \<Rightarrow> State \<Rightarrow> bool" where
  "evaluated_valid u props st =
     (valid_password (password st)
      \<and> strength st = evaluatePassword u props (password st)
      \<and> (\<forall>r\<in>set (notified st). \<exists>s. valid_password s \<and> r = evaluatePassword u props s))"

section \<open>Projections of the result\<close>

lemma score_evaluatePassword:
  "score (evaluatePassword u props pwd) =
     count_passed (Object_values (compute_criteria u props pwd))"
  by (simp add: evaluatePassword_def Let_def)

lemma criteria_evaluatePassword:
  "criteria (evaluatePassword u props pwd) = compute_criteria u props pwd"
  by (simp add: evaluatePassword_def Let_def)

lemma level_evaluatePassword:
  "level (evaluatePassword u props pwd) = level_of (score (evaluatePassword u props pwd))"
  by (simp add: evaluatePassword_def Let_def)

lemma feedback_evaluatePassword:
  "feedback (evaluatePassword u props pwd) =
     build_feedback u props (compute_criteria u props pwd)"
  by (simp add: evaluatePassword_def Let_def)

lemma maxScore_evaluatePassword: "maxScore (evaluatePassword u props pwd) = 7"
  by (simp add: evaluatePassword_def Let_def)

section \<open>The score\<close>

lemma fold_count_passed:
  "fold (\<lambda>v s. if v then s + 1 else s) vs a = a + int (length (filter id vs))"
  by (induction vs arbitrary: a) auto

lemma count_passed_filter: "count_passed vs = int (length (filter id vs))"
  by (simp add: count_passed_def fold_count_passed)

lemma count_passed_seven:
  "count_passed [a, b, c, d, e, f, g] =
     of_bool a + of_bool b + of_bool c + of_bool d + of_bool e + of_bool f + of_bool g"
  by (simp add: count_passed_def)

text \<open>
  Claim C1. For every password (and every configuration) the score is the number of
  criteria that hold, written both as the sum of the seven truth values and as the number
  of true entries of \<open>Object.values(criteria)\<close>; it lies between 0 and 7, and
  \<open>maxScore\<close> is 7.
\<close>

theorem C1_score_counts_criteria:
  "(let r = evaluatePassword u props pwd; c = criteria r in
      score r = of_bool (length_c c) + of_bool (uppercase c) + of_bool (lowercase c)
              + of_bool (numbers c) + of_bool (specialChars c)
              + of_bool (noRepeatedChars c) + of_bool (noCommonPatterns c)
    \<and> score r = int (length (filter id (Object_values c)))
    \<and> 0 \<le> score r \<and> score r \<le> 7 \<and> maxScore r = 7)"
proof -
  let ?r = "evaluatePassword u props pwd"
  let ?c = "compute_criteria u props pwd"
  have sum: "score ?r = of_bool (length_c ?c) + of_bool (uppercase ?c) + of_bool (lowercase ?c)
      + of_bool (numbers ?c) + of_bool (specialChars ?c) + of_bool (noRepeatedChars ?c)
      + of_bool (noCommonPatterns ?c)"
    unfolding score_evaluatePassword Object_values_def by (rule count_passed_seven)
  have cnt: "score ?r = int (length (filter id (Object_values ?c)))"
    unfolding score_evaluatePassword by (rule count_passed_filter)
  have "length (filter id (Object_values ?c)) \<le> length (Object_values ?c)"
    by (rule length_filter_le)
  also have "length (Object_values ?c) = 7"
    by (simp add: Object_values_def)
  finally have ub: "score ?r \<le> 7" using cnt by simp
  have lb: "0 \<le> score ?r" using cnt by simp
  have mx: "maxScore ?r = 7" by (rule maxScore_evaluatePassword)
  show ?thesis
    unfolding Let_def criteria_evaluatePassword using sum cnt ub lb mx by simp
qed

text \<open>The theorem at \<open>Pass123\<close> under the default configuration: five criteria hold.\<close>

theorem C1_score_witness:
  "score (evaluatePassword exampleRuntime defaultProps (lit ''Pass123'')) = 5
   \<and> length (filter id (Object_values
        (criteria (evaluatePassword exampleRuntime defaultProps (lit ''Pass123''))))) = 5
   \<and> maxScore (evaluatePassword exampleRuntime defaultProps (lit ''Pass123'')) = 7"
proof -
  have v: "Object_values (criteria (evaluatePassword exampleRuntime defaultProps (lit ''Pass123'')))
             = [False, True, True, True, False, True, True]"
    by code_simp
  show ?thesis
    using C1_score_counts_criteria [of exampleRuntime defaultProps "lit ''Pass123''"]
    unfolding Let_def v by simp
qed

section \<open>The level\<close>

text \<open>
  Claim C2. For every password and every configuration the level is \<open>Strong\<close> exactly
  when the score is at least 6, \<open>Medium\<close> exactly when it is 4 or 5, and \<open>Weak\<close>
  otherwise; two evaluations with the same score, under whatever configurations, have the
  same level.
\<close>

theorem C2_level_thresholds:
  "(let r = evaluatePassword u props pwd in
      (level r = Strong \<longleftrightarrow> score r \<ge> 6)
    \<and> (level r = Medium \<longleftrightarrow> 4 \<le> score r \<and> score r < 6)
    \<and> (level r = Weak \<longleftrightarrow> \<not> score r \<ge> 6 \<and> \<not> (4 \<le> score r \<and> score r < 6))
    \<and> (\<forall>u' props' pwd'. score (evaluatePassword u' props' pwd') = score r
          \<longrightarrow> level (evaluatePassword u' props' pwd') = level r))"
  unfolding Let_def level_evaluatePassword by (auto simp: level_of_def)

text \<open>
  The theorem at \<open>Pass123\<close>: score 5, level \<open>Medium\<close>, under the default configuration
  and under one that asks for 4 characters and nothing else, where the password
  \<open>Pa1\<close> has score 5 too.
\<close>

theorem C2_level_witness:
  "score (evaluatePassword exampleRuntime defaultProps (lit ''Pass123'')) = 5
   \<and> level (evaluatePassword exampleRuntime defaultProps (lit ''Pass123'')) = Medium
   \<and> score (evaluatePassword exampleRuntime
        \<lparr> minLength = 4, requireUppercase = False, requireLowercase = False,
          requireNumbers = False, requireSpecialChars = False,
          preventRepeatedChars = False, preventCommonPatterns = False \<rparr> (lit ''Pa1'')) = 5
   \<and> level (evaluatePassword exampleRuntime
        \<lparr> minLength = 4, requireUppercase = False, requireLowercase = False,
          requireNumbers = False, requireSpecialChars = False,
          preventRepeatedChars = False, preventCommonPatterns = False \<rparr> (lit ''Pa1'')) = Medium"
proof -
  let ?p = "\<lparr> minLength = 4, requireUppercase = False, requireLowercase = False,
          requireNumbers = False, requireSpecialChars = False,
          preventRepeatedChars = False, preventCommonPatterns = False \<rparr>"
  have s1: "score (evaluatePassword exampleRuntime defaultProps (lit ''Pass123'')) = 5"
    by code_simp
  have s2: "score (evaluatePassword exampleRuntime ?p (lit ''Pa1'')) = 5"
    by code_simp
  show ?thesis
    using C2_level_thresholds [of exampleRuntime defaultProps "lit ''Pass123''"] s1 s2
    unfolding Let_def by auto
qed

section \<open>The sanitizer\<close>

lemma class_ascii: "class_matches [Range 0x00 0x7F] c \<longleftrightarrow> unat c \<le> 127"
  by (simp add: class_matches_def word_le_nat_alt)

lemma isAsciiOnly_iff: "isAsciiOnly str \<longleftrightarrow> (\<forall>c\<in>set str. unat c \<le> 127)"
  by (simp add: isAsciiOnly_def dropWhile_eq_Nil_conv class_ascii)

lemma accept_iff: "accept text \<longleftrightarrow> length text \<le> 25 \<and> (\<forall>c\<in>set text. unat c \<le> 127)"
  by (auto simp: accept_def isAsciiOnly_iff)

lemma handlePasswordChange_accept:
  "handlePasswordChange text st = (if accept text then st\<lparr> password := text \<rparr> else st)"
  by (simp add: handlePasswordChange_def accept_def)

lemma changeText_reject: "\<not> accept text \<Longrightarrow> changeText u props text st = st"
  by (simp add: changeText_def handlePasswordChange_accept)

text \<open>
  Claim C3. The sanitizer accepts a candidate exactly when it has at most 25 code units and
  each is a code point from 0 to 127. The handler stores an accepted candidate as it is;
  on a rejected one it returns the state unchanged, and so does the whole change event.
  Twenty-five letters \<open>a\<close> are accepted; twenty-six are rejected, and so is the
  specification's example with an emoji (a surrogate pair) and the letter \<open>U+00F8\<close>.
\<close>

theorem C3_sanitizer:
  "(accept text \<longleftrightarrow> length text \<le> 25 \<and> (\<forall>c\<in>set text. unat c \<le> 127))
   \<and> handlePasswordChange text st = (if accept text then st\<lparr> password := text \<rparr> else st)
   \<and> (\<not> accept text \<longrightarrow> changeText u props text st = st)
   \<and> accept (replicate 25 (of_char CHR ''a''))
   \<and> \<not> accept (replicate 26 (of_char CHR ''a''))
   \<and> \<not> accept (lit ''P@ss'' @ [0xD83D, 0xDE80] @ lit ''W'' @ [0x00F8] @ lit ''rd123'')"
proof -
  have a25: "accept (replicate 25 (of_char CHR ''a''))"
    by (simp add: accept_iff)
  have a26: "\<not> accept (replicate 26 (of_char CHR ''a''))"
    by (simp add: accept_iff)
  have emoji: "\<not> accept (lit ''P@ss'' @ [0xD83D, 0xDE80] @ lit ''W'' @ [0x00F8] @ lit ''rd123'')"
    by (simp add: accept_iff)
  show ?thesis
    using a25 a26 emoji accept_iff [of "text"] handlePasswordChange_accept [of "text" st]
      changeText_reject [of "text" u props st]
    by blast
qed

text \<open>
  The theorem at twenty-six letters \<open>a\<close>, offered after \<open>Pass123\<close> was stored and
  offered to the mounted component.
\<close>

theorem C3_sanitizer_witness:
  "\<not> accept (replicate 26 0x61)
   \<and> password (handlePasswordChange (replicate 26 0x61)
        (handlePasswordChange (lit ''Pass123'') initialState)) = lit ''Pass123''
   \<and> changeText exampleRuntime defaultProps (replicate 26 0x61) (mounted exampleRuntime defaultProps)
       = mounted exampleRuntime defaultProps"
proof -
  have l: "\<not> (length (replicate 26 (0x61 :: code_unit)) \<le> 25)" by simp
  have p: "accept (lit ''Pass123'')" by code_simp
  note t = C3_sanitizer [of "replicate 26 0x61" _ exampleRuntime defaultProps]
  from t [of initialState] l have r: "\<not> accept (replicate 26 0x61)" by blast
  show ?thesis
    using r t [of "handlePasswordChange (lit ''Pass123'') initialState"]
      t [of "mounted exampleRuntime defaultProps"] p
    by (simp add: handlePasswordChange_def accept_def)
qed

section \<open>The invariant of the stored password\<close>

lemma valid_password_accept: "valid_password s = accept s"
  by (simp add: valid_password_def accept_iff list_all_iff)

lemma valid_initial: "valid_password (password initialState)"
  by (simp add: valid_password_def initialState_def)

lemma password_useEffect: "password (useEffect u props st) = password st"
  by (simp add: useEffect_def Let_def)

lemma strength_useEffect: "strength (useEffect u props st) = evaluatePassword u props (password st)"
  by (simp add: useEffect_def Let_def)

lemma notified_useEffect:
  "notified (useEffect u props st) = notified st @ [evaluatePassword u props (password st)]"
  by (simp add: useEffect_def Let_def)

lemma valid_handlePasswordChange:
  "valid_password (password st) \<Longrightarrow> valid_password (password (handlePasswordChange text st))"
  by (simp add: handlePasswordChange_accept valid_password_accept)

lemma valid_changeText:
  "valid_password (password st) \<Longrightarrow> valid_password (password (changeText u props text st))"
  by (simp add: changeText_def Let_def password_useEffect valid_handlePasswordChange)

lemma evaluated_valid_mounted: "evaluated_valid u props (mounted u props)"
  unfolding evaluated_valid_def mounted_def password_useEffect strength_useEffect notified_useEffect
  using valid_initial by (auto simp: initialState_def)

lemma evaluated_valid_changeText:
  assumes "evaluated_valid u props st"
  shows "evaluated_valid u props (changeText u props text st)"
proof (cases "password (handlePasswordChange text st) = password st")
  case True
  then have "changeText u props text st = st"
    by (simp add: changeText_def Let_def handlePasswordChange_def split: if_splits)
  with assms show ?thesis by simp
next
  case False
  then have acc: "accept text" and pw: "password (handlePasswordChange text st) = text"
    by (auto simp: handlePasswordChange_accept split: if_splits)
  have ct: "changeText u props text st = useEffect u props (handlePasswordChange text st)"
    using False by (simp add: changeText_def Let_def)
  have nt: "notified (handlePasswordChange text st) = notified st"
    by (simp add: handlePasswordChange_def)
  show ?thesis
    unfolding evaluated_valid_def ct password_useEffect strength_useEffect notified_useEffect pw nt
    using assms acc by (auto simp: evaluated_valid_def valid_password_accept)
qed

lemma evaluated_valid_foldl:
  "evaluated_valid u props st \<Longrightarrow>
   evaluated_valid u props (foldl (\<lambda>st text. changeText u props text st) st texts)"
  by (induction texts arbitrary: st) (simp_all add: evaluated_valid_changeText)

lemma evaluated_valid_run: "evaluated_valid u props (run u props texts)"
  unfolding run_def by (rule evaluated_valid_foldl [OF evaluated_valid_mounted])

text \<open>
  Claim C10. The stored password is valid initially; the handler and the whole change event
  keep it valid; so after any sequence of change events it is valid, the displayed
  strength is the evaluation of that valid password, and every result the callback has
  received is the evaluation of a valid string.
\<close>

theorem C10_password_invariant:
  "valid_password (password initialState)
   \<and> (valid_password (password st) \<longrightarrow> valid_password (password (handlePasswordChange text st)))
   \<and> (valid_password (password st) \<longrightarrow> valid_password (password (changeText u props text st)))
   \<and> valid_password (password (run u props texts))
   \<and> strength (run u props texts) = evaluatePassword u props (password (run u props texts))
   \<and> (\<forall>r\<in>set (notified (run u props texts)).
         \<exists>s. valid_password s \<and> r = evaluatePassword u props s)"
  using valid_initial valid_handlePasswordChange [of st "text"] valid_changeText [of st u props "text"]
    evaluated_valid_run [of u props texts]
  unfolding evaluated_valid_def by blast

text \<open>
  The theorem on a run that stores \<open>Pass123\<close> and then offers twenty-six letters and a
  string with a surrogate: both are ignored.
\<close>

theorem C10_password_invariant_witness:
  "valid_password (lit ''Pass123'')
   \<and> password (run exampleRuntime defaultProps [lit ''Pass123'', replicate 26 0x61, [0x61, 0xD83D]])
       = lit ''Pass123''
   \<and> valid_password (password (changeText exampleRuntime defaultProps (replicate 26 0x61)
        (run exampleRuntime defaultProps [lit ''Pass123''])))
   \<and> level (strength (run exampleRuntime defaultProps [lit ''Pass123'', replicate 26 0x61, [0x61, 0xD83D]]))
       = Medium"
proof -
  let ?texts = "[lit ''Pass123'', replicate 26 0x61, [0x61, 0xD83D]]"
  have pw: "password (run exampleRuntime defaultProps ?texts) = lit ''Pass123''"
    by code_simp
  have pw1: "password (run exampleRuntime defaultProps [lit ''Pass123'']) = lit ''Pass123''"
    by code_simp
  have lv: "level (evaluatePassword exampleRuntime defaultProps (lit ''Pass123'')) = Medium"
    by code_simp
  note t = C10_password_invariant [of "run exampleRuntime defaultProps [lit ''Pass123'']"
      "replicate 26 0x61" exampleRuntime defaultProps ?texts]
  show ?thesis
    using t lv unfolding pw pw1 by simp
qed


section \<open>Repeated characters\<close>

lemma has_run3_iff: "has_run3 s \<longleftrightarrow> (\<exists>xs c ys. s = xs @ [c, c, c] @ ys)"
proof (induction s rule: has_run3.induct)
  case (1 a b c rest)
  show ?case
  proof
    assume "has_run3 (a # b # c # rest)"
    then consider "a = b \<and> b = c" | "has_run3 (b # c # rest)" by auto
    then show "\<exists>xs d ys. a # b # c # rest = xs @ [d, d, d] @ ys"
    proof cases
      case 1
      then have "a # b # c # rest = [] @ [a, a, a] @ rest" by simp
      then show ?thesis by blast
    next
      case 2
      with "1.IH" obtain xs d ys where "b # c # rest = xs @ [d, d, d] @ ys" by blast
      then have "a # b # c # rest = (a # xs) @ [d, d, d] @ ys" by simp
      then show ?thesis by blast
    qed
  next
    assume "\<exists>xs d ys. a # b # c # rest = xs @ [d, d, d] @ ys"
    then obtain xs d ys where e: "a # b # c # rest = xs @ [d, d, d] @ ys" by blast
    show "has_run3 (a # b # c # rest)"
    proof (cases xs)
      case Nil
      with e show ?thesis by simp
    next
      case (Cons x xs')
      with e have "b # c # rest = xs' @ [d, d, d] @ ys" by simp
      then have "has_run3 (b # c # rest)" using "1.IH" by blast
      then show ?thesis by simp
    qed
  qed
qed (auto simp: append_eq_Cons_conv)

lemma takeWhile_two: "2 \<le> length (takeWhile (\<lambda>d. d = c) rest) \<longleftrightarrow> (\<exists>ys. rest = c # c # ys)"
proof (cases rest)
  case Nil
  then show ?thesis by simp
next
  case (Cons a as)
  then show ?thesis by (cases as) auto
qed

lemma repeated_at_iff:
  "repeated_at s \<longleftrightarrow> (\<exists>c ys. s = [c, c, c] @ ys \<and> \<not> isLineTerminator c)"
  by (cases s) (auto simp: takeWhile_two dot_matches_def)

lemma test_repeated_iff:
  "test_repeated s \<longleftrightarrow> (\<exists>xs c ys. s = xs @ [c, c, c] @ ys \<and> \<not> isLineTerminator c)"
proof (induction s)
  case Nil
  show ?case by simp
next
  case (Cons a s)
  show ?case
  proof
    assume "test_repeated (a # s)"
    then consider "repeated_at (a # s)" | "test_repeated s" by auto
    then show "\<exists>xs c ys. a # s = xs @ [c, c, c] @ ys \<and> \<not> isLineTerminator c"
    proof cases
      case 1
      then obtain c ys where "a # s = [] @ [c, c, c] @ ys" "\<not> isLineTerminator c"
        unfolding repeated_at_iff by auto
      then show ?thesis by blast
    next
      case 2
      with Cons.IH obtain xs c ys where "s = xs @ [c, c, c] @ ys" "\<not> isLineTerminator c"
        by blast
      then have "a # s = (a # xs) @ [c, c, c] @ ys" "\<not> isLineTerminator c" by simp_all
      then show ?thesis by blast
    qed
  next
    assume "\<exists>xs c ys. a # s = xs @ [c, c, c] @ ys \<and> \<not> isLineTerminator c"
    then obtain xs c ys where e: "a # s = xs @ [c, c, c] @ ys" and nl: "\<not> isLineTerminator c"
      by blast
    show "test_repeated (a # s)"
    proof (cases xs)
      case Nil
      with e nl have "repeated_at (a # s)" unfolding repeated_at_iff by auto
      then show ?thesis by simp
    next
      case (Cons x xs')
      with e have "s = xs' @ [c, c, c] @ ys" by simp
      with nl Cons.IH have "test_repeated s" by blast
      then show ?thesis by simp
    qed
  qed
qed

lemma noRepeatedChars_characterisation:
  "noRepeatedChars (criteria (evaluatePassword u props pwd)) \<longleftrightarrow>
     \<not> (\<exists>xs c ys. pwd = xs @ [c, c, c] @ ys \<and> \<not> isLineTerminator c)"
  by (simp add: criteria_evaluatePassword compute_criteria_def test_repeated_iff)

lemma noRepeatedChars_without_line_terminators:
  assumes "\<forall>c\<in>set pwd. \<not> isLineTerminator c"
  shows "noRepeatedChars (criteria (evaluatePassword u props pwd)) \<longleftrightarrow> \<not> has_run3 pwd"
  unfolding noRepeatedChars_characterisation has_run3_iff using assms by fastforce

text \<open>
  Claim C4, at the input of three line feeds. The string is a run of three equal code
  units and passes the sanitizer, yet \<open>noRepeatedChars\<close> holds for it: the dot of the
  pattern does not match a line terminator. On \<open>aaa\<close> the criterion fails, as the claim
  says.
\<close>

theorem C4_line_terminator_run_passes:
  "has_run3 [0x0A, 0x0A, 0x0A]
   \<and> accept [0x0A, 0x0A, 0x0A]
   \<and> noRepeatedChars (criteria (evaluatePassword exampleRuntime defaultProps [0x0A, 0x0A, 0x0A]))
   \<and> has_run3 (lit ''aaa'')
   \<and> \<not> noRepeatedChars (criteria (evaluatePassword exampleRuntime defaultProps (lit ''aaa'')))"
  by code_simp

section \<open>The feedback list\<close>

lemma push_if: "(if P then push fb m else fb) = fb @ (if P then [m] else [])"
  by (simp add: push_def)

lemma build_feedback_append:
  "build_feedback u props c =
     (if \<not> length_c c
      then [lit ''Minimum '' @ Number_toString u (minLength props) @ lit '' characters'']
      else [])
   @ (if requireUppercase props \<and> \<not> uppercase c then [lit ''Add uppercase letters''] else [])
   @ (if requireLowercase props \<and> \<not> lowercase c then [lit ''Add lowercase letters''] else [])
   @ (if requireNumbers props \<and> \<not> numbers c then [lit ''Add numbers''] else [])
   @ (if requireSpecialChars props \<and> \<not> specialChars c
      then [lit ''Add special characters''] else [])
   @ (if preventRepeatedChars props \<and> \<not> noRepeatedChars c
      then [lit ''Avoid repeated characters''] else [])
   @ (if preventCommonPatterns props \<and> \<not> noCommonPatterns c
      then [lit ''Avoid common patterns''] else [])"
  unfolding build_feedback_def Let_def push_if by simp

lemma Number_toString_safe:
  "isSafeInteger n \<Longrightarrow> Number_toString u n = decimal n"
  by (simp add: Number_toString_def)

lemma minimum_8:
  "lit ''Minimum '' @ Number_toString u 8 @ lit '' characters'' = lit ''Minimum 8 characters''"
proof -
  have "decimal 8 = lit ''8''" by code_simp
  then show ?thesis by (simp add: Number_toString_def isSafeInteger_def lit_def)
qed

text \<open>
  Claim C5. The feedback list is the concatenation, in the order length, uppercase,
  lowercase, numbers, special characters, repeated characters, common patterns, of one
  message for each criterion that failed and whose flag is enabled; the length message has
  no flag and appears whenever the length criterion failed. The length message embeds
  \<open>minLength\<close> as the template literal renders it: in decimal digits when it is a safe
  integer, as the runtime renders the number otherwise. For the default 8 it is
  \<open>Minimum 8 characters\<close>.
\<close>

theorem C5_feedback_order:
  "(let r = evaluatePassword u props pwd; c = criteria r in
      feedback r =
        (if \<not> length_c c
         then [lit ''Minimum '' @ Number_toString u (minLength props) @ lit '' characters'']
         else [])
      @ (if requireUppercase props \<and> \<not> uppercase c then [lit ''Add uppercase letters''] else [])
      @ (if requireLowercase props \<and> \<not> lowercase c then [lit ''Add lowercase letters''] else [])
      @ (if requireNumbers props \<and> \<not> numbers c then [lit ''Add numbers''] else [])
      @ (if requireSpecialChars props \<and> \<not> specialChars c
         then [lit ''Add special characters''] else [])
      @ (if preventRepeatedChars props \<and> \<not> noRepeatedChars c
         then [lit ''Avoid repeated characters''] else [])
      @ (if preventCommonPatterns props \<and> \<not> noCommonPatterns c
         then [lit ''Avoid common patterns''] else []))
   \<and> (isSafeInteger (minLength props) \<longrightarrow>
        Number_toString u (minLength props) = decimal (minLength props))
   \<and> lit ''Minimum '' @ Number_toString u 8 @ lit '' characters'' = lit ''Minimum 8 characters''"
  unfolding Let_def feedback_evaluatePassword criteria_evaluatePassword
  using build_feedback_append [of u props "compute_criteria u props pwd"] minimum_8 [of u]
    Number_toString_safe [of "minLength props" u]
  by blast

text \<open>
  The theorem at \<open>111password\<close> under a configuration with \<open>minLength\<close> 12 and only
  the lower-case, numbers and repeated-characters flags enabled: the password fails upper
  case, special characters and common patterns too, without a message.
\<close>

theorem C5_feedback_witness:
  "feedback (evaluatePassword exampleRuntime
      \<lparr> minLength = 12, requireUppercase = False, requireLowercase = True,
        requireNumbers = True, requireSpecialChars = False,
        preventRepeatedChars = True, preventCommonPatterns = False \<rparr> (lit ''111password''))
     = [lit ''Minimum 12 characters'', lit ''Avoid repeated characters'']
   \<and> isSafeInteger 12
   \<and> Number_toString exampleRuntime 12 = lit ''12''"
proof -
  let ?p = "\<lparr> minLength = 12, requireUppercase = False, requireLowercase = True,
        requireNumbers = True, requireSpecialChars = False,
        preventRepeatedChars = True, preventCommonPatterns = False \<rparr>"
  have c: "criteria (evaluatePassword exampleRuntime ?p (lit ''111password''))
     = \<lparr> length_c = False, uppercase = False, lowercase = True, numbers = True,
         specialChars = False, noRepeatedChars = False, noCommonPatterns = False \<rparr>"
    by code_simp
  have m: "lit ''Minimum '' @ Number_toString exampleRuntime 12 @ lit '' characters''
             = lit ''Minimum 12 characters''"
    by code_simp
  have d: "isSafeInteger 12" "decimal 12 = lit ''12''"
    by code_simp+
  show ?thesis
    using C5_feedback_order [of exampleRuntime ?p "lit ''111password''"] d
    unfolding Let_def c by (simp add: m)
qed

section \<open>Independence from the flags\<close>

lemma compute_criteria_flags:
  "minLength p1 = minLength p2 \<Longrightarrow> compute_criteria u p1 pwd = compute_criteria u p2 pwd"
  by (simp add: compute_criteria_def)

text \<open>
  Claim C6. Two configurations with the same \<open>minLength\<close> give the same criteria, score,
  level and \<open>maxScore\<close> for every password, whatever their six flags.
\<close>

theorem C6_flags_only_feedback:
  assumes "minLength p1 = minLength p2"
  shows "criteria (evaluatePassword u p1 pwd) = criteria (evaluatePassword u p2 pwd)
       \<and> score (evaluatePassword u p1 pwd) = score (evaluatePassword u p2 pwd)
       \<and> level (evaluatePassword u p1 pwd) = level (evaluatePassword u p2 pwd)
       \<and> maxScore (evaluatePassword u p1 pwd) = maxScore (evaluatePassword u p2 pwd)"
  unfolding level_evaluatePassword score_evaluatePassword criteria_evaluatePassword
    maxScore_evaluatePassword
  using compute_criteria_flags [OF assms] by simp

text \<open>
  The theorem at \<open>pass\<close>, for the default configuration and the one with every flag
  disabled: criteria, score and level agree, the feedback lists differ.
\<close>

theorem C6_flags_witness:
  "minLength defaultProps = minLength
      \<lparr> minLength = 8, requireUppercase = False, requireLowercase = False,
        requireNumbers = False, requireSpecialChars = False,
        preventRepeatedChars = False, preventCommonPatterns = False \<rparr>
   \<and> criteria (evaluatePassword exampleRuntime defaultProps (lit ''pass''))
     = criteria (evaluatePassword exampleRuntime
      \<lparr> minLength = 8, requireUppercase = False, requireLowercase = False,
        requireNumbers = False, requireSpecialChars = False,
        preventRepeatedChars = False, preventCommonPatterns = False \<rparr> (lit ''pass''))
   \<and> score (evaluatePassword exampleRuntime defaultProps (lit ''pass''))
     = score (evaluatePassword exampleRuntime
      \<lparr> minLength = 8, requireUppercase = False, requireLowercase = False,
        requireNumbers = False, requireSpecialChars = False,
        preventRepeatedChars = False, preventCommonPatterns = False \<rparr> (lit ''pass''))
   \<and> level (evaluatePassword exampleRuntime defaultProps (lit ''pass'')) = Weak
   \<and> feedback (evaluatePassword exampleRuntime defaultProps (lit ''pass''))
     \<noteq> feedback (evaluatePassword exampleRuntime
      \<lparr> minLength = 8, requireUppercase = False, requireLowercase = False,
        requireNumbers = False, requireSpecialChars = False,
        preventRepeatedChars = False, preventCommonPatterns = False \<rparr> (lit ''pass''))"
proof -
  let ?q = "\<lparr> minLength = 8, requireUppercase = False, requireLowercase = False,
        requireNumbers = False, requireSpecialChars = False,
        preventRepeatedChars = False, preventCommonPatterns = False \<rparr>"
  have m: "minLength defaultProps = minLength ?q"
    by (simp add: defaultProps_def)
  have l: "level (evaluatePassword exampleRuntime defaultProps (lit ''pass'')) = Weak"
    by code_simp
  have f: "feedback (evaluatePassword exampleRuntime defaultProps (lit ''pass''))
     \<noteq> feedback (evaluatePassword exampleRuntime ?q (lit ''pass''))"
    by code_simp
  show ?thesis
    using C6_flags_only_feedback [OF m, of exampleRuntime "lit ''pass''"] m l f by simp
qed


section \<open>Common patterns\<close>

lemma startsWith_iff: "startsWith s p \<longleftrightarrow> (\<exists>ys. s = p @ ys)"
  by (induction s p rule: startsWith.induct) auto

lemma includes_str_iff: "includes_str s p \<longleftrightarrow> (\<exists>xs ys. s = xs @ p @ ys)"
proof (induction s)
  case Nil
  show ?case by (cases p) simp_all
next
  case (Cons a s)
  show ?case
  proof
    assume "includes_str (a # s) p"
    then consider "startsWith (a # s) p" | "includes_str s p" by auto
    then show "\<exists>xs ys. a # s = xs @ p @ ys"
    proof cases
      case 1
      then obtain ys where "a # s = [] @ p @ ys" unfolding startsWith_iff by auto
      then show ?thesis by blast
    next
      case 2
      with Cons.IH obtain xs ys where "s = xs @ p @ ys" by blast
      then have "a # s = (a # xs) @ p @ ys" by simp
      then show ?thesis by blast
    qed
  next
    assume "\<exists>xs ys. a # s = xs @ p @ ys"
    then obtain xs ys where e: "a # s = xs @ p @ ys" by blast
    show "includes_str (a # s) p"
    proof (cases xs)
      case Nil
      with e have "startsWith (a # s) p" unfolding startsWith_iff by auto
      then show ?thesis by simp
    next
      case (Cons x xs')
      with e have "s = xs' @ p @ ys" by simp
      with Cons.IH have "includes_str s p" by blast
      then show ?thesis by simp
    qed
  qed
qed

lemma set_commonPatterns:
  "set commonPatterns =
     {lit ''123456'', lit ''password'', lit ''qwerty'', lit ''abc123'',
      lit ''abcdefghijklmnopqrstuvwxyz'', lit ''123456789''}"
  by (simp add: commonPatterns_def)

lemma noCommonPatterns_iff:
  "noCommonPatterns (criteria (evaluatePassword u props pwd)) \<longleftrightarrow>
     \<not> (\<exists>p\<in>set commonPatterns. \<exists>xs ys. toLowerCase u pwd = xs @ p @ ys)"
  by (simp add: criteria_evaluatePassword compute_criteria_def list_ex_iff includes_str_iff)

lemma toLowerCase_ascii:
  "list_all (\<lambda>c. c \<le> 0x7F) s \<Longrightarrow> toLowerCase u s = map ascii_lower s"
  by (simp add: toLowerCase_def)

lemma toLowerCase_password123: "toLowerCase u (lit ''password123'') = lit ''password123''"
  by (simp add: toLowerCase_def lit_def ascii_lower_def)

lemma toLowerCase_PassWord: "toLowerCase u (lit ''My-PassWord'') = lit ''my-password''"
  by (simp add: toLowerCase_def lit_def ascii_lower_def)

lemma password123_criteria:
  "compute_criteria u defaultProps (lit ''password123'') =
     \<lparr> length_c = True, uppercase = False, lowercase = True, numbers = True,
       specialChars = False, noRepeatedChars = True, noCommonPatterns = False \<rparr>"
  unfolding compute_criteria_def toLowerCase_password123
  by (simp add: lit_def defaultProps_def test_class_def class_matches_def re_upper_def re_lower_def
      re_digit_def re_special_def commonPatterns_def dot_matches_def isLineTerminator_def)

text \<open>
  Claim C7. \<open>noCommonPatterns\<close> holds exactly when no entry of the blocklist occurs as a
  substring of the lower-cased password. For \<open>password123\<close> under the default
  configuration it fails, and the feedback contains \<open>Avoid common patterns\<close>.
\<close>

theorem C7_common_patterns:
  "(noCommonPatterns (criteria (evaluatePassword u props pwd)) \<longleftrightarrow>
      \<not> (\<exists>p\<in>{lit ''123456'', lit ''password'', lit ''qwerty'', lit ''abc123'',
              lit ''abcdefghijklmnopqrstuvwxyz'', lit ''123456789''}.
           \<exists>xs ys. toLowerCase u pwd = xs @ p @ ys))
   \<and> \<not> noCommonPatterns (criteria (evaluatePassword u defaultProps (lit ''password123'')))
   \<and> lit ''Avoid common patterns''
        \<in> set (feedback (evaluatePassword u defaultProps (lit ''password123'')))"
proof -
  have a: "noCommonPatterns (criteria (evaluatePassword u props pwd)) \<longleftrightarrow>
      \<not> (\<exists>p\<in>{lit ''123456'', lit ''password'', lit ''qwerty'', lit ''abc123'',
              lit ''abcdefghijklmnopqrstuvwxyz'', lit ''123456789''}.
           \<exists>xs ys. toLowerCase u pwd = xs @ p @ ys)"
    unfolding noCommonPatterns_iff set_commonPatterns ..
  have b: "\<not> noCommonPatterns (criteria (evaluatePassword u defaultProps (lit ''password123'')))"
    unfolding criteria_evaluatePassword password123_criteria by simp
  have c: "lit ''Avoid common patterns''
        \<in> set (feedback (evaluatePassword u defaultProps (lit ''password123'')))"
    unfolding feedback_evaluatePassword password123_criteria
    by (simp add: build_feedback_def Let_def push_def defaultProps_def)
  from a b c show ?thesis by blast
qed

text \<open>
  The theorem at \<open>My-PassWord\<close>: its lower-casing holds \<open>password\<close> after \<open>my-\<close>.
\<close>

theorem C7_common_patterns_witness:
  "toLowerCase exampleRuntime (lit ''My-PassWord'') = lit ''my'' @ lit ''-'' @ lit ''password'' @ []
   \<and> \<not> noCommonPatterns (criteria (evaluatePassword exampleRuntime defaultProps (lit ''My-PassWord'')))"
proof -
  have l: "toLowerCase exampleRuntime (lit ''My-PassWord'') = lit ''my-'' @ lit ''password'' @ []"
    by code_simp
  have l': "toLowerCase exampleRuntime (lit ''My-PassWord'') = lit ''my'' @ lit ''-'' @ lit ''password'' @ []"
    by code_simp
  have "\<exists>p\<in>{lit ''123456'', lit ''password'', lit ''qwerty'', lit ''abc123'',
              lit ''abcdefghijklmnopqrstuvwxyz'', lit ''123456789''}.
           \<exists>xs ys. toLowerCase exampleRuntime (lit ''My-PassWord'') = xs @ p @ ys"
    using l by blast
  then show ?thesis
    using C7_common_patterns [of exampleRuntime defaultProps "lit ''My-PassWord''"] l' by blast
qed

section \<open>Character classes\<close>

lemma test_class_iff: "test_class items s \<longleftrightarrow> (\<exists>x\<in>set s. class_matches items x)"
  by (simp add: test_class_def list_ex_iff)

lemma class_upper: "class_matches re_upper x \<longleftrightarrow> of_char CHR ''A'' \<le> x \<and> x \<le> of_char CHR ''Z''"
  by (simp add: class_matches_def re_upper_def)

lemma class_lower: "class_matches re_lower x \<longleftrightarrow> of_char CHR ''a'' \<le> x \<and> x \<le> of_char CHR ''z''"
  by (simp add: class_matches_def re_lower_def)

lemma class_digit: "class_matches re_digit x \<longleftrightarrow> of_char CHR ''0'' \<le> x \<and> x \<le> of_char CHR ''9''"
  by (simp add: class_matches_def re_digit_def)

lemma class_special:
  "class_matches re_special x \<longleftrightarrow>
     x \<in> set (lit (''!@#$%^&*(),.?'' @ [CHR 0x22] @ '':{}|<>''))"
  by (simp add: class_matches_def re_special_def lit_def)

text \<open>
  Claim C8. \<open>specialChars\<close> holds exactly when the password has a code unit among the
  twenty characters \<^verbatim>\<open>! @ # $ % ^ & * ( ) , . ? " : { } | < >\<close>; \<open>numbers\<close>,
  \<open>uppercase\<close> and \<open>lowercase\<close> hold exactly when it has one in \<open>0\<close>..\<open>9\<close>,
  \<open>A\<close>..\<open>Z\<close> and \<open>a\<close>..\<open>z\<close>.
\<close>

theorem C8_character_classes:
  "(let c = criteria (evaluatePassword u props pwd) in
      (specialChars c \<longleftrightarrow>
         (\<exists>x\<in>set pwd. x \<in> set (lit (''!@#$%^&*(),.?'' @ [CHR 0x22] @ '':{}|<>''))))
    \<and> (numbers c \<longleftrightarrow> (\<exists>x\<in>set pwd. of_char CHR ''0'' \<le> x \<and> x \<le> of_char CHR ''9''))
    \<and> (uppercase c \<longleftrightarrow> (\<exists>x\<in>set pwd. of_char CHR ''A'' \<le> x \<and> x \<le> of_char CHR ''Z''))
    \<and> (lowercase c \<longleftrightarrow> (\<exists>x\<in>set pwd. of_char CHR ''a'' \<le> x \<and> x \<le> of_char CHR ''z'')))"
  unfolding Let_def criteria_evaluatePassword
  by (simp add: compute_criteria_def test_class_iff class_upper class_lower class_digit
      class_special)

text \<open>
  The theorem at \<open>a_B-9\<close>: a digit, an upper-case and a lower-case letter, and two
  punctuation characters that are not in the set.
\<close>

theorem C8_character_classes_witness:
  "\<not> specialChars (criteria (evaluatePassword exampleRuntime defaultProps (lit ''a_B-9'')))
   \<and> numbers (criteria (evaluatePassword exampleRuntime defaultProps (lit ''a_B-9'')))
   \<and> uppercase (criteria (evaluatePassword exampleRuntime defaultProps (lit ''a_B-9'')))
   \<and> lowercase (criteria (evaluatePassword exampleRuntime defaultProps (lit ''a_B-9'')))"
proof -
  have s: "set (lit ''a_B-9'') = {0x61, 0x5F, 0x42, 0x2D, 0x39}"
    by (simp add: lit_def)
  show ?thesis
    using C8_character_classes [of exampleRuntime defaultProps "lit ''a_B-9''"]
    unfolding Let_def s by (simp add: lit_def)
qed

section \<open>The empty password\<close>

text \<open>
  Claim C9. Under the default configuration the empty password fails length, upper case,
  lower case, numbers and special characters, and passes the two remaining criteria: score
  2, level \<open>Weak\<close>. Its feedback is the five messages of the failed criteria.
\<close>

theorem C9_empty_password:
  "criteria (evaluatePassword u defaultProps []) =
     \<lparr> length_c = False, uppercase = False, lowercase = False, numbers = False,
       specialChars = False, noRepeatedChars = True, noCommonPatterns = True \<rparr>
   \<and> score (evaluatePassword u defaultProps []) = 2
   \<and> level (evaluatePassword u defaultProps []) = Weak
   \<and> maxScore (evaluatePassword u defaultProps []) = 7
   \<and> feedback (evaluatePassword u defaultProps []) =
       [lit ''Minimum 8 characters'', lit ''Add uppercase letters'',
        lit ''Add lowercase letters'', lit ''Add numbers'', lit ''Add special characters'']"
proof -
  have c: "compute_criteria u defaultProps [] =
     \<lparr> length_c = False, uppercase = False, lowercase = False, numbers = False,
       specialChars = False, noRepeatedChars = True, noCommonPatterns = True \<rparr>"
    by (simp add: compute_criteria_def defaultProps_def test_class_def toLowerCase_def
        commonPatterns_def lit_def)
  have m: "lit ''Minimum '' @ Number_toString u 8 @ lit '' characters'' = lit ''Minimum 8 characters''"
    by (rule minimum_8)
  have f: "build_feedback u defaultProps (compute_criteria u defaultProps []) =
       [lit ''Minimum 8 characters'', lit ''Add uppercase letters'',
        lit ''Add lowercase letters'', lit ''Add numbers'', lit ''Add special characters'']"
    unfolding c using m by (simp add: build_feedback_def Let_def push_def defaultProps_def)
  show ?thesis
    unfolding level_evaluatePassword score_evaluatePassword criteria_evaluatePassword
      maxScore_evaluatePassword feedback_evaluatePassword f
    unfolding c by (simp add: Object_values_def count_passed_def level_of_def)
qed

text \<open>The theorem at the example runtime.\<close>

theorem C9_empty_password_witness:
  "score (evaluatePassword exampleRuntime defaultProps []) = 2
   \<and> level (evaluatePassword exampleRuntime defaultProps []) = Weak
   \<and> noRepeatedChars (criteria (evaluatePassword exampleRuntime defaultProps []))
   \<and> noCommonPatterns (criteria (evaluatePassword exampleRuntime defaultProps []))
   \<and> \<not> length_c (criteria (evaluatePassword exampleRuntime defaultProps []))"
  using C9_empty_password [of exampleRuntime] by simp


end
